theory Spec2Isabelle
  imports Complex_Main
begin

section \<open>Python and numpy values\<close>

text \<open>
  Floats are modelled by the reals (no rounding). A numpy array of shape \<open>(n, 1)\<close> or
  \<open>(n,)\<close> that the code only reads entry by entry is a list; a two-dimensional array is a
  list of rows. Exceptions are values of \<open>error\<close>; a method that returns a value has
  the result type \<open>error + 'a\<close>.
\<close>

datatype error = IndexError | ValueError | AttributeError

type_synonym matrix = "real list list"

definition and_then :: "error + 'a \<Rightarrow> ('a \<Rightarrow> error + 'b) \<Rightarrow> error + 'b" where
  "and_then m f = (case m of Inl e \<Rightarrow> Inl e | Inr x \<Rightarrow> f x)"

text \<open>\<open>xs[i]\<close>: a negative index counts from the end, an index out of range raises.\<close>

definition py_index :: "'a list \<Rightarrow> int \<Rightarrow> error + 'a" where
  "py_index xs i =
     (if 0 \<le> i \<and> i < int (length xs) then Inr (xs ! nat i)
      else if - int (length xs) \<le> i \<and> i < 0 then Inr (xs ! nat (int (length xs) + i))
      else Inl IndexError)"

text \<open>\<open>xs[i] = v\<close>, with the same reading of the index.\<close>

definition py_setitem :: "'a list \<Rightarrow> int \<Rightarrow> 'a \<Rightarrow> error + 'a list" where
  "py_setitem xs i v =
     (if 0 \<le> i \<and> i < int (length xs) then Inr (xs[nat i := v])
      else if - int (length xs) \<le> i \<and> i < 0 then Inr (xs[nat (int (length xs) + i) := v])
      else Inl IndexError)"

text \<open>
  A method that assigns to fields and may raise half way: the state it leaves behind is
  kept in both cases, since an exception does not undo the assignments made before it.
\<close>

datatype 's outcome = Returns 's | Raises error 's

fun state_of :: "'s outcome \<Rightarrow> 's" where
  "state_of (Returns s) = s"
| "state_of (Raises e s) = s"

fun returns :: "'s outcome \<Rightarrow> bool" where
  "returns (Returns s) = True"
| "returns (Raises e s) = False"

section \<open>The kinematic model (mobile\_manipulator.py)\<close>

record ManipulatorParams =
  dof :: nat
  bx :: real
  bz :: real
  d1 :: real
  d2 :: real
  mz :: real
  mx :: real

definition ManipulatorParams_init :: ManipulatorParams where
  "ManipulatorParams_init =
     \<lparr>dof = 4, bx = 132 / 10000, bz = 108 / 1000, d1 = 142 / 1000, d2 = 1588 / 10000,
      mz = 722 / 10000, mx = 565 / 10000\<rparr>"

text \<open>
  The attribute \<open>T\<close> (the chain of homogeneous transforms) is read by \<open>getEETransform\<close>
  but the constructor does not assign it: \<open>None\<close> is the attribute not being there.
\<close>

record MobileManipulator =
  revolute :: "bool list"
  manipulatorParams :: ManipulatorParams
  revoluteExt :: "bool list"
  dof :: nat
  q :: "real list"
  q_hist :: "real list list"
  eta :: "real list"
  T :: "matrix list option"

definition MobileManipulator_init :: MobileManipulator where
  "MobileManipulator_init =
     \<lparr>revolute = [True, True, True, True],
      manipulatorParams = ManipulatorParams_init,
      revoluteExt = [True, False] @ [True, True, True, True],
      dof = 4,
      q = [0, 0, 0, 0],
      q_hist = [],
      eta = [0, 0, 0, 0],
      T = None\<rparr>"

text \<open>The second \<open>update\<close> of the class, which replaces the first one of that name.\<close>

definition MobileManipulator_update :: "MobileManipulator \<Rightarrow> real list \<Rightarrow> MobileManipulator" where
  "MobileManipulator_update r position = r\<lparr>q := position, eta := [0, 0, 0, 0]\<rparr>"

definition getEETransform :: "MobileManipulator \<Rightarrow> error + matrix" where
  "getEETransform r =
     (case T r of
        None \<Rightarrow> Inl AttributeError
      | Some ts \<Rightarrow> py_index ts (- 1))"

definition getJointPos :: "MobileManipulator \<Rightarrow> int \<Rightarrow> error + real" where
  "getJointPos r joint = py_index (q r) (joint - 1)"

definition getBasePose :: "MobileManipulator \<Rightarrow> real list" where
  "getBasePose r = eta r"

definition getDOF :: "MobileManipulator \<Rightarrow> nat" where
  "getDOF r = MobileManipulator.dof r"

text \<open>\<open>np.zeros((m, n))\<close> and the column assignment \<open>M[:, j] = v\<close>.\<close>

definition zeros :: "nat \<Rightarrow> nat \<Rightarrow> matrix" where
  "zeros m n = replicate m (replicate n 0)"

definition set_col :: "matrix \<Rightarrow> nat \<Rightarrow> real list \<Rightarrow> error + matrix" where
  "set_col M j v =
     (if \<not> list_all (\<lambda>row. j < length row) M then Inl IndexError
      else if length v \<noteq> length M then Inl ValueError
      else Inr (map (\<lambda>(row, x). row[j := x]) (zip M v)))"

text \<open>
  \<open>getEEJacobian\<close>: the unpacking \<open>q1, q2, q3, q4 = self.q\<close> needs exactly four joint
  positions, \<open>self.eta[3]\<close> a fourth pose entry, and the four column assignments at least
  four columns.
\<close>

definition getEEJacobian :: "MobileManipulator \<Rightarrow> error + matrix" where
  "getEEJacobian r =
     (if length (q r) \<noteq> 4 then Inl ValueError
      else if length (eta r) \<le> 3 then Inl IndexError
      else
        let p = manipulatorParams r;
            q1 = q r ! 0; q2 = q r ! 1; q3 = q r ! 2;
            yaw = eta r ! 3;
            l1p = - d1 p * sin q2;
            l2p = d2 p * cos q3;
            l = bx p + l1p + l2p + mx p;
            dx_dq1 = - l * sin q1 * cos yaw - l * cos q1 * sin yaw;
            dy_dq1 = - l * sin q1 * sin yaw + l * cos q1 * cos yaw;
            dx_dq2 = - d1 p * cos q2 * (cos q1 * cos yaw - sin q1 * sin yaw);
            dy_dq2 = - d1 p * cos q2 * (cos q1 * sin yaw + sin q1 * cos yaw);
            dz_dq2 = d1 p * sin q2;
            dx_dq3 = - d2 p * sin q3 * (cos q1 * cos yaw - sin q1 * sin yaw);
            dy_dq3 = - d2 p * sin q3 * (cos q1 * cos yaw - sin q1 * sin yaw);
            dz_dq3 = - d2 p * cos q3
        in and_then (set_col (zeros 6 (ManipulatorParams.dof p)) 0 [dx_dq1, dy_dq1, 0, 0, 0, 1]) (\<lambda>J0.
           and_then (set_col J0 1 [dx_dq2, dy_dq2, dz_dq2, 0, 0, 0]) (\<lambda>J1.
           and_then (set_col J1 2 [dx_dq3, dy_dq3, dz_dq3, 0, 0, 0]) (\<lambda>J2.
           set_col J2 3 [0, 0, 0, 0, 0, 1]))))"

text \<open>\<open>getEEposition\<close> returns the column \<open>[[x], [y], [z]]\<close>; it reads all four pose entries.\<close>

definition getEEposition :: "MobileManipulator \<Rightarrow> error + matrix" where
  "getEEposition r =
     (if length (q r) \<noteq> 4 then Inl ValueError
      else if length (eta r) \<le> 3 then Inl IndexError
      else
        let p = manipulatorParams r;
            q1 = q r ! 0; q2 = q r ! 1; q3 = q r ! 2; q4 = q r ! 3;
            l1p = - d1 p * sin q2;
            l2p = d2 p * cos q3;
            l = bx p + l1p + l2p + mx p;
            x = l * cos q1 + eta r ! 0;
            y = l * sin q1 + eta r ! 1;
            z = - (bz p + d1 p * cos (- q2) + d2 p * sin q3 - mz p) + eta r ! 2;
            yaw = q1 + q4 + eta r ! 3
        in Inr [[x], [y], [z]])"

subsection \<open>Integration of the base pose\<close>

text \<open>
  A numpy float divided by zero does not raise: the quotient is \<open>inf\<close> or \<open>nan\<close> (with a
  RuntimeWarning) and the computation goes on with it. The reals have no such value, so
  the quotient is a \<open>real option\<close>, \<open>None\<close> standing for a value that is not finite; sums,
  differences and products of a non-finite value are again not finite (\<open>0 * inf\<close> is
  \<open>nan\<close>).
\<close>

definition np_divide :: "real \<Rightarrow> real \<Rightarrow> real option" where
  "np_divide a b = (if b = 0 then None else Some (a / b))"

fun fl_add :: "real option \<Rightarrow> real option \<Rightarrow> real option" where
  "fl_add (Some a) (Some b) = Some (a + b)"
| "fl_add _ _ = None"

fun fl_sub :: "real option \<Rightarrow> real option \<Rightarrow> real option" where
  "fl_sub (Some a) (Some b) = Some (a - b)"
| "fl_sub _ _ = None"

fun fl_mul :: "real option \<Rightarrow> real option \<Rightarrow> real option" where
  "fl_mul (Some a) (Some b) = Some (a * b)"
| "fl_mul _ _ = None"

definition fl_dot :: "real option list \<Rightarrow> real option list \<Rightarrow> real option" where
  "fl_dot u v = foldl fl_add (Some 0) (map (\<lambda>(a, b). fl_mul a b) (zip u v))"

text \<open>
  \<open>move_and_rotate_simultaneously\<close>: the method's one effect is the assignment
  \<open>self.eta = (a @ b) + c\<close>; the model returns the pose assigned, entry by entry.
\<close>

definition move_and_rotate_simultaneously ::
    "MobileManipulator \<Rightarrow> real list \<Rightarrow> real \<Rightarrow> error + real option list" where
  "move_and_rotate_simultaneously r dQ dt =
     (if length dQ < 2 then Inl IndexError
      else if length (eta r) < 3 then Inl IndexError
      else
        let forward_vel = dQ ! 1;
            angular_vel = dQ ! 0;
            R = np_divide forward_vel angular_vel;
            ICC = [fl_sub (Some (eta r ! 0)) (fl_mul R (Some (sin (eta r ! 2)))),
                   fl_add (Some (eta r ! 1)) (fl_mul R (Some (cos (eta r ! 2))))];
            a = [[Some (cos (angular_vel * dt)), Some (- sin (angular_vel * dt)), Some 0],
                 [Some (sin (angular_vel * dt)), Some (cos (angular_vel * dt)), Some 0],
                 [Some 0, Some 0, Some 1]];
            b = [fl_sub (Some (eta r ! 0)) (ICC ! 0),
                 fl_sub (Some (eta r ! 1)) (ICC ! 1),
                 Some (eta r ! 2)];
            c = [ICC ! 0, ICC ! 1, Some (angular_vel * dt)]
        in Inr (map (\<lambda>(row, x). fl_add (fl_dot row b) x) (zip a c)))"

text \<open>
  \<open>move_then_rotate\<close>, the sibling policy: the in-place sum \<open>self.eta += ...\<close> of a
  three-entry column needs a pose of three entries.
\<close>

definition move_then_rotate :: "MobileManipulator \<Rightarrow> real list \<Rightarrow> real \<Rightarrow> error + MobileManipulator" where
  "move_then_rotate r dQ dt =
     (if length dQ < 2 then Inl IndexError
      else if length (eta r) < 3 then Inl IndexError
      else if length (eta r) \<noteq> 3 then Inl ValueError
      else
        let forward_vel = dQ ! 1;
            angular_vel = dQ ! 0;
            yaw = eta r ! 2
        in Inr (r\<lparr>eta := map (\<lambda>(e, v). e + dt * v)
                   (zip (eta r) [forward_vel * cos yaw, forward_vel * sin yaw, angular_vel])\<rparr>))"

section \<open>Tasks (task.py)\<close>

subsection \<open>Array operations the tasks use\<close>

text \<open>
  Two-dimensional arrays only; operands of unequal shape are a \<open>ValueError\<close> (the tasks
  are built from column vectors, and numpy's broadcasting of unequal shapes is left out).
\<close>

definition reshape :: "real list \<Rightarrow> nat \<Rightarrow> nat \<Rightarrow> error + matrix" where
  "reshape xs m n =
     (if length xs \<noteq> m * n then Inl ValueError
      else Inr (map (\<lambda>i. take n (drop (i * n) xs)) [0..<m]))"

definition mat_sub :: "matrix \<Rightarrow> matrix \<Rightarrow> error + matrix" where
  "mat_sub A B =
     (if map length A \<noteq> map length B then Inl ValueError
      else Inr (map (\<lambda>(u, v). map (\<lambda>(a, b). a - b) (zip u v)) (zip A B)))"

definition mat_add :: "matrix \<Rightarrow> matrix \<Rightarrow> error + matrix" where
  "mat_add A B =
     (if map length A \<noteq> map length B then Inl ValueError
      else Inr (map (\<lambda>(u, v). map (\<lambda>(a, b). a + b) (zip u v)) (zip A B)))"

definition matmul :: "matrix \<Rightarrow> matrix \<Rightarrow> error + matrix" where
  "matmul A B =
     (if \<not> list_all (\<lambda>row. length row = length B) A then Inl ValueError
      else Inr (map (\<lambda>row. map (\<lambda>col. sum_list (map (\<lambda>(a, b). a * b) (zip row col)))
                              (transpose B)) A))"

definition sub_scalar :: "matrix \<Rightarrow> real \<Rightarrow> matrix" where
  "sub_scalar A s = map (map (\<lambda>a. a - s)) A"

definition eye :: "nat \<Rightarrow> matrix" where
  "eye n = map (\<lambda>i. map (\<lambda>j. if i = j then 1 else 0) [0..<n]) [0..<n]"

definition norm2 :: "real list \<Rightarrow> real" where
  "norm2 v = sqrt (sum_list (map (\<lambda>a. a * a) v))"

text \<open>
  Evaluating an expression in a state: if it raises, the method ends there with the
  state as it is; otherwise the method goes on with the value.
\<close>

definition attempt :: "error + 'a \<Rightarrow> 's \<Rightarrow> ('a \<Rightarrow> 's outcome) \<Rightarrow> 's outcome" where
  "attempt m s k = (case m of Inl e \<Rightarrow> Raises e s | Inr x \<Rightarrow> k x)"

subsection \<open>The base class\<close>

text \<open>
  The activation is \<open>1\<close> in the base class, an array of six entries in the joint-limit
  task and a boolean in the obstacle task; the error is a column, the gain itself in
  the joint-limit task, and a column of quotients in the obstacle task. The record is
  polymorphic in both.
\<close>

record ('a, 'e) Task =
  name :: string
  sigma_d :: matrix
  task_dim :: nat
  FeedForward :: "real list"
  K :: matrix
  err_hist :: "real list"
  activation :: 'a
  err :: 'e
  J :: matrix

definition getDesired :: "('a, 'e, 'z) Task_scheme \<Rightarrow> matrix" where
  "getDesired t = sigma_d t"

definition getJacobian :: "('a, 'e, 'z) Task_scheme \<Rightarrow> matrix" where
  "getJacobian t = J t"

definition getError :: "('a, 'e, 'z) Task_scheme \<Rightarrow> 'e" where
  "getError t = err t"

definition getFeedForward :: "('a, 'e, 'z) Task_scheme \<Rightarrow> real list" where
  "getFeedForward t = FeedForward t"

definition getGain :: "('a, 'e, 'z) Task_scheme \<Rightarrow> matrix" where
  "getGain t = K t"

definition isActive :: "('a, 'e, 'z) Task_scheme \<Rightarrow> 'a" where
  "isActive t = activation t"

definition setActivation :: "('a, 'e, 'z) Task_scheme \<Rightarrow> 'a \<Rightarrow> ('a, 'e, 'z) Task_scheme" where
  "setActivation t v = t\<lparr>activation := v\<rparr>"

text \<open>A method of a task receives the robot by reference: its state is the pair.\<close>

definition Task_update ::
    "MobileManipulator \<times> ('a, 'e, 'z) Task_scheme \<Rightarrow> (MobileManipulator \<times> ('a, 'e, 'z) Task_scheme) outcome" where
  "Task_update s = Returns s"

definition Task_updateActivation ::
    "MobileManipulator \<times> ('a, 'e, 'z) Task_scheme \<Rightarrow> (MobileManipulator \<times> ('a, 'e, 'z) Task_scheme) outcome" where
  "Task_updateActivation s = Returns s"

text \<open>
  The error \<open>K @ (desired - value) + FeedForward.reshape(task_dim, 1)\<close> that the tracking
  tasks share, evaluated left to right.
\<close>

definition tracking_error :: "('a, 'e, 'z) Task_scheme \<Rightarrow> error + matrix \<Rightarrow> error + matrix" where
  "tracking_error t difference =
     and_then difference (\<lambda>d.
     and_then (matmul (K t) d) (\<lambda>kd.
     and_then (reshape (getFeedForward t) (task_dim t) 1) (\<lambda>ff.
     mat_add kd ff)))"

subsection \<open>End-effector tasks\<close>

definition EEPosition3D_update ::
    "MobileManipulator \<times> (int, matrix) Task \<Rightarrow> (MobileManipulator \<times> (int, matrix) Task) outcome" where
  "EEPosition3D_update s =
     (case s of (r, t) \<Rightarrow>
        attempt (getEEJacobian r) (r, t) (\<lambda>Jee.
          let t1 = t\<lparr>J := take 3 Jee\<rparr> in
          attempt (tracking_error t1
                     (and_then (getEEposition r) (\<lambda>pos. mat_sub (getDesired t1) pos)))
            (r, t1) (\<lambda>v. Returns (r, t1\<lparr>err := v\<rparr>))))"

text \<open>
  The tasks below call \<open>getEEorientation\<close>, \<open>getMMJacobian\<close>, \<open>getMMorientation\<close> and
  \<open>getMMposition\<close>, which the class \<open>MobileManipulator\<close> does not define. Each is a
  parameter of the task's method: a function of the robot's state that may fail (the
  heading a scalar, the base Jacobian and the base position arrays). The class as it
  stands is the instance that always fails with \<open>AttributeError\<close>.
\<close>

definition EEOrientation3D_update ::
    "(MobileManipulator \<Rightarrow> error + real) \<Rightarrow> MobileManipulator \<times> (int, matrix) Task
       \<Rightarrow> (MobileManipulator \<times> (int, matrix) Task) outcome" where
  "EEOrientation3D_update getEEorientation s =
     (case s of (r, t) \<Rightarrow>
        attempt (and_then (getEEJacobian r) (\<lambda>Jee.
                 and_then (py_index Jee (- 1)) (\<lambda>row.
                 reshape row (task_dim t) (getDOF r))))
          (r, t) (\<lambda>Jt.
          let t1 = t\<lparr>J := Jt\<rparr> in
          attempt (tracking_error t1
                     (and_then (getEEorientation r) (\<lambda>ori. Inr (sub_scalar (getDesired t1) ori))))
            (r, t1) (\<lambda>v. Returns (r, t1\<lparr>err := v\<rparr>))))"

record EEConfiguration3D = "(int, matrix) Task" +
  err_pos :: matrix
  err_ori :: "real list"

text \<open>\<open>M[[0, 1, 2, 5]]\<close>, \<open>M[0:3, 0]\<close> and \<open>np.block([[u], [v]])\<close> of a column and a row.\<close>

definition rows_at :: "matrix \<Rightarrow> nat list \<Rightarrow> error + matrix" where
  "rows_at M idxs =
     (if \<not> list_all (\<lambda>i. i < length M) idxs then Inl IndexError
      else Inr (map (\<lambda>i. M ! i) idxs))"

definition column0 :: "matrix \<Rightarrow> error + real list" where
  "column0 M =
     (if \<not> list_all (\<lambda>row. 0 < length row) M then Inl IndexError
      else Inr (map (\<lambda>row. row ! 0) M))"

definition block_rows :: "matrix \<Rightarrow> real list \<Rightarrow> error + matrix" where
  "block_rows A v =
     (if \<not> list_all (\<lambda>row. length row = length v) A then Inl ValueError
      else Inr (A @ [v]))"

definition EEConfiguration3D_update ::
    "(MobileManipulator \<Rightarrow> error + real) \<Rightarrow> MobileManipulator \<times> EEConfiguration3D
       \<Rightarrow> (MobileManipulator \<times> EEConfiguration3D) outcome" where
  "EEConfiguration3D_update getEEorientation s =
     (case s of (r, t) \<Rightarrow>
        attempt (and_then (getEEJacobian r) (\<lambda>Jee.
                 and_then (rows_at Jee [0, 1, 2, 5]) (\<lambda>rows.
                 reshape (concat rows) (task_dim t) (getDOF r))))
          (r, t) (\<lambda>Jt.
          let t1 = t\<lparr>J := Jt\<rparr> in
          attempt (and_then (column0 (take 3 (getDesired t1))) (\<lambda>c.
                   and_then (reshape c 3 1) (\<lambda>d3.
                   and_then (getEEposition r) (\<lambda>pos. mat_sub d3 pos))))
            (r, t1) (\<lambda>ep.
            let t2 = t1\<lparr>err_pos := ep\<rparr> in
            attempt (and_then (py_index (getDesired t2) (- 1)) (\<lambda>row.
                     and_then (getEEorientation r) (\<lambda>ori. Inr (map (\<lambda>a. a - ori) row))))
              (r, t2) (\<lambda>eo.
              let t3 = t2\<lparr>err_ori := eo\<rparr> in
              attempt (tracking_error t3
                         (and_then (block_rows (err_pos t3) (err_ori t3)) (\<lambda>b.
                          reshape (concat b) (task_dim t3) 1)))
                (r, t3) (\<lambda>v. Returns (r, t3\<lparr>err := v\<rparr>))))))"

subsection \<open>Mobile-base tasks\<close>

definition MMOrientation_update ::
    "(MobileManipulator \<Rightarrow> error + matrix) \<Rightarrow> (MobileManipulator \<Rightarrow> error + real)
       \<Rightarrow> MobileManipulator \<times> (int, matrix) Task
       \<Rightarrow> (MobileManipulator \<times> (int, matrix) Task) outcome" where
  "MMOrientation_update getMMJacobian getMMorientation s =
     (case s of (r, t) \<Rightarrow>
        attempt (and_then (getMMJacobian r) (\<lambda>Jmm.
                 and_then (py_index Jmm (- 1)) (\<lambda>row.
                 reshape row (task_dim t) (getDOF r))))
          (r, t) (\<lambda>Jt.
          let t1 = t\<lparr>J := Jt\<rparr> in
          attempt (tracking_error t1
                     (and_then (getMMorientation r) (\<lambda>ori. Inr (sub_scalar (getDesired t1) ori))))
            (r, t1) (\<lambda>v. Returns (r, t1\<lparr>err := v\<rparr>))))"

definition MMposition_update ::
    "(MobileManipulator \<Rightarrow> error + matrix) \<Rightarrow> (MobileManipulator \<Rightarrow> error + matrix)
       \<Rightarrow> MobileManipulator \<times> (int, matrix) Task
       \<Rightarrow> (MobileManipulator \<times> (int, matrix) Task) outcome" where
  "MMposition_update getMMJacobian getMMposition s =
     (case s of (r, t) \<Rightarrow>
        attempt (and_then (getMMJacobian r) (\<lambda>Jmm.
                 reshape (concat (take 2 Jmm)) (task_dim t) (getDOF r)))
          (r, t) (\<lambda>Jt.
          let t1 = t\<lparr>J := Jt\<rparr> in
          attempt (tracking_error t1
                     (and_then (getMMposition r) (\<lambda>pos. mat_sub (getDesired t1) pos)))
            (r, t1) (\<lambda>v. Returns (r, t1\<lparr>err := v\<rparr>))))"

subsection \<open>Joint limits\<close>

record JointLimits = "(int list, matrix) Task" +
  lower_limits :: "real list"
  upper_limits :: "real list"
  activation_thresh :: real
  deactivation_thresh :: real

text \<open>The constructor: six activation entries, all zero (a one-dimensional array is one row).\<close>

definition JointLimits_init ::
    "string \<Rightarrow> matrix \<Rightarrow> real list \<Rightarrow> real list \<Rightarrow> real \<Rightarrow> real \<Rightarrow> real list \<Rightarrow> matrix \<Rightarrow> JointLimits" where
  "JointLimits_init nm desired lower upper act deact feedforward gain =
     \<lparr>name = nm, sigma_d = desired, task_dim = length desired, FeedForward = feedforward,
      K = gain, err_hist = [], activation = [0, 0, 0, 0, 0, 0],
      err = [replicate (length desired) 0], J = zeros (length desired) 4,
      lower_limits = lower, upper_limits = upper,
      activation_thresh = act, deactivation_thresh = deact\<rparr>"

text \<open>
  One pass of the loop body of \<open>updateActivation\<close>, for the loop index \<open>i\<close>: the
  \<open>if\<close>/\<open>elif\<close> chain, each condition reading what Python's \<open>and\<close> lets it read.
\<close>

definition JointLimits_step :: "MobileManipulator \<Rightarrow> JointLimits \<Rightarrow> nat \<Rightarrow> error + JointLimits" where
  "JointLimits_step r t i =
     and_then (getJointPos r (int i + 1)) (\<lambda>pos.
     and_then (py_index (upper_limits t) (int i)) (\<lambda>upper.
     and_then (if pos \<ge> upper - JointLimits.activation_thresh t
               then and_then (py_index (activation t) (int i + 2)) (\<lambda>a. Inr (a = 0))
               else Inr False) (\<lambda>c1.
     if c1 then and_then (py_setitem (activation t) (int i + 2) (- 1)) (\<lambda>A. Inr (t\<lparr>activation := A\<rparr>))
     else
     and_then (py_index (activation t) (int i + 2)) (\<lambda>a.
     and_then (if a = 0
               then and_then (py_index (lower_limits t) (int i)) (\<lambda>lower.
                      Inr (pos \<le> lower + JointLimits.activation_thresh t))
               else Inr False) (\<lambda>c2.
     if c2 then and_then (py_setitem (activation t) (int i + 2) 1) (\<lambda>A. Inr (t\<lparr>activation := A\<rparr>))
     else
     and_then (if a = - 1
               then Inr (pos \<le> upper - JointLimits.deactivation_thresh t)
               else Inr False) (\<lambda>c3.
     if c3 then and_then (py_setitem (activation t) (int i + 2) 0) (\<lambda>A. Inr (t\<lparr>activation := A\<rparr>))
     else
     and_then (if a = 1
               then and_then (py_index (lower_limits t) (int i)) (\<lambda>lower.
                      Inr (pos \<ge> lower + JointLimits.deactivation_thresh t))
               else Inr False) (\<lambda>c4.
     if c4 then and_then (py_setitem (activation t) (int i + 2) 0) (\<lambda>A. Inr (t\<lparr>activation := A\<rparr>))
     else Inr t)))))))"

text \<open>
  The value one pass leaves in the entry it looks at: the same chain of tests, on the
  entry \<open>a\<close>, the joint position and the two limits.
\<close>

definition limit_transition :: "int \<Rightarrow> real \<Rightarrow> real \<Rightarrow> real \<Rightarrow> real \<Rightarrow> real \<Rightarrow> int" where
  "limit_transition a pos lower upper act deact =
     (if pos \<ge> upper - act \<and> a = 0 then - 1
      else if a = 0 \<and> pos \<le> lower + act then 1
      else if a = - 1 \<and> pos \<le> upper - deact then 0
      else if a = 1 \<and> pos \<ge> lower + deact then 0
      else a)"

fun JointLimits_loop :: "MobileManipulator \<Rightarrow> JointLimits \<Rightarrow> nat list \<Rightarrow> JointLimits outcome" where
  "JointLimits_loop r t [] = Returns t"
| "JointLimits_loop r t (i # rest) =
     (case JointLimits_step r t i of
        Inl e \<Rightarrow> Raises e t
      | Inr t' \<Rightarrow> JointLimits_loop r t' rest)"

text \<open>\<open>for i in range(robot.getDOF() - 2)\<close>: no pass when the difference is not positive.\<close>

definition JointLimits_updateActivation ::
    "MobileManipulator \<times> JointLimits \<Rightarrow> (MobileManipulator \<times> JointLimits) outcome" where
  "JointLimits_updateActivation s =
     (case s of (r, t) \<Rightarrow>
        (case JointLimits_loop r t [0..<getDOF r - 2] of
           Returns t' \<Rightarrow> Returns (r, t')
         | Raises e t' \<Rightarrow> Raises e (r, t')))"

definition JointLimits_update ::
    "MobileManipulator \<times> JointLimits \<Rightarrow> (MobileManipulator \<times> JointLimits) outcome" where
  "JointLimits_update s =
     (case JointLimits_updateActivation s of
        Raises e s' \<Rightarrow> Raises e s'
      | Returns (r, t) \<Rightarrow> Returns (r, t\<lparr>J := eye (getDOF r), err := getGain t\<rparr>))"

definition JointLimits_isActive :: "JointLimits \<Rightarrow> int" where
  "JointLimits_isActive t = (if list_all (\<lambda>a. a = 0) (activation t) then 0 else 1)"

subsection \<open>Obstacle avoidance\<close>

record Obstacle3D = "(bool, real option list list) Task" +
  obstacle :: "real list"
  activation_thresh :: real
  deactivation_thresh :: real
  dist_to_obstacle :: real

definition Obstacle3D_init ::
    "string \<Rightarrow> matrix \<Rightarrow> real list \<Rightarrow> real \<Rightarrow> real \<Rightarrow> real list \<Rightarrow> matrix \<Rightarrow> Obstacle3D" where
  "Obstacle3D_init nm desired obs act deact feedforward gain =
     \<lparr>name = nm, sigma_d = desired, task_dim = length desired, FeedForward = feedforward,
      K = gain, err_hist = [], activation = False,
      err = [[Some 0, Some 0, Some 0]], J = zeros 3 4,
      obstacle = obs, activation_thresh = act, deactivation_thresh = deact,
      dist_to_obstacle = 0\<rparr>"

text \<open>
  \<open>M[0:2, 3].reshape(2, 1)\<close>, the planar position in a homogeneous transform, and
  \<open>self.obstacle.reshape(2, 1)\<close>; both as lists of two entries.
\<close>

definition planar :: "matrix \<Rightarrow> error + real list" where
  "planar M =
     (if \<not> list_all (\<lambda>row. 3 < length row) (take 2 M) then Inl IndexError
      else if length M < 2 then Inl ValueError
      else Inr (map (\<lambda>row. row ! 3) (take 2 M)))"

definition reshape2 :: "real list \<Rightarrow> error + real list" where
  "reshape2 v = (if length v \<noteq> 2 then Inl ValueError else Inr v)"

definition vec_sub :: "real list \<Rightarrow> real list \<Rightarrow> real list" where
  "vec_sub u v = map (\<lambda>(a, b). a - b) (zip u v)"

text \<open>The distance \<open>np.linalg.norm(obstacle - end_effector)\<close> that both methods compute.\<close>

definition obstacle_distance :: "MobileManipulator \<Rightarrow> Obstacle3D \<Rightarrow> error + real" where
  "obstacle_distance r t =
     and_then (reshape2 (obstacle t)) (\<lambda>obs.
     and_then (getEETransform r) (\<lambda>M.
     and_then (planar M) (\<lambda>ee.
     Inr (norm2 (vec_sub obs ee)))))"

definition Obstacle3D_update ::
    "MobileManipulator \<times> Obstacle3D \<Rightarrow> (MobileManipulator \<times> Obstacle3D) outcome" where
  "Obstacle3D_update s =
     (case s of (r, t) \<Rightarrow>
        attempt (and_then (getEETransform r) (\<lambda>M.
                 and_then (planar M) (\<lambda>ee.
                 and_then (reshape2 (obstacle t)) (\<lambda>obs.
                 and_then (obstacle_distance r t) (\<lambda>dist.
                 Inr (map (\<lambda>a. [np_divide a dist]) (vec_sub ee obs)))))))
          (r, t) (\<lambda>direction.
          let t1 = t\<lparr>err := direction\<rparr>;
              t2 = t1\<lparr>err := err t1 @ [[Some 0]]\<rparr>
          in attempt (and_then (getEEJacobian r) (\<lambda>Jee.
                      reshape (concat (take 3 Jee)) 3 (getDOF r)))
               (r, t2) (\<lambda>Jt. Returns (r, t2\<lparr>J := Jt\<rparr>))))"

text \<open>
  \<open>updateActivation\<close>: whichever branch is taken, the distance is computed before
  anything is assigned, so a failure of it leaves the task as it was.
\<close>

definition Obstacle3D_updateActivation ::
    "MobileManipulator \<times> Obstacle3D \<Rightarrow> (MobileManipulator \<times> Obstacle3D) outcome" where
  "Obstacle3D_updateActivation s =
     (case s of (r, t) \<Rightarrow>
        attempt (obstacle_distance r t) (r, t) (\<lambda>dist.
          let t1 = (if (\<not> isActive t) \<and> dist \<le> Obstacle3D.activation_thresh t
                    then setActivation t True
                    else if isActive t \<and> dist \<ge> Obstacle3D.deactivation_thresh t
                    then setActivation t False
                    else t)
          in Returns (r, t1\<lparr>err_hist := err_hist t1 @ [dist]\<rparr>)))"

section \<open>Properties\<close>

subsection \<open>Indexing\<close>

lemma py_index_nat: "i < length xs \<Longrightarrow> py_index xs (int i) = Inr (xs ! i)"
  by (simp add: py_index_def)

subsection \<open>Joint positions\<close>

text \<open>
  C7, as the code has it. The joint index of \<open>getJointPos\<close> counts from one: for
  \<open>1 \<le> j \<le> DOF\<close> the call returns the position of joint \<open>j\<close>, the entry \<open>q[j - 1]\<close>; for
  \<open>j > DOF\<close> and for \<open>j \<le> -DOF\<close> it fails with \<open>IndexError\<close>. (The robot has as many
  joint positions as \<open>getDOF\<close> says.)
\<close>

theorem getJointPos_one_based:
  assumes "length (q r) = getDOF r"
  shows "(1 \<le> j \<and> j \<le> int (getDOF r) \<longrightarrow> getJointPos r j = Inr (q r ! nat (j - 1))) \<and>
         (int (getDOF r) < j \<longrightarrow> getJointPos r j = Inl IndexError) \<and>
         (j \<le> - int (getDOF r) \<longrightarrow> getJointPos r j = Inl IndexError)"
  using assms by (auto simp: getJointPos_def py_index_def)

text \<open>
  The theorem for C7 at the robot with joint positions \<open>10, 20, 30, 40\<close>: joint 2 is at
  \<open>20\<close>, and there is no joint 5.
\<close>

theorem getJointPos_one_based_witness:
  "getJointPos (MobileManipulator_init\<lparr>q := [10, 20, 30, 40]\<rparr>) 2 = Inr 20 \<and>
   getJointPos (MobileManipulator_init\<lparr>q := [10, 20, 30, 40]\<rparr>) 5 = Inl IndexError"
  using getJointPos_one_based [of "MobileManipulator_init\<lparr>q := [10, 20, 30, 40]\<rparr>" 2]
    getJointPos_one_based [of "MobileManipulator_init\<lparr>q := [10, 20, 30, 40]\<rparr>" 5]
  by (simp add: MobileManipulator_init_def getDOF_def)

text \<open>
  C7 as stated fails: with four joints, index 4 lies outside \<open>[0, DOF)\<close> and the call
  returns the position of the last joint; index 0 lies inside and the call returns
  the last joint's position too (\<open>q[-1]\<close>), index \<open>-1\<close> that of the third.
\<close>

theorem getJointPos_counterexample:
  "getDOF (MobileManipulator_init\<lparr>q := [10, 20, 30, 40]\<rparr>) = 4 \<and>
   getJointPos (MobileManipulator_init\<lparr>q := [10, 20, 30, 40]\<rparr>) 4 = Inr 40 \<and>
   getJointPos (MobileManipulator_init\<lparr>q := [10, 20, 30, 40]\<rparr>) 0 = Inr 40 \<and>
   getJointPos (MobileManipulator_init\<lparr>q := [10, 20, 30, 40]\<rparr>) (- 1) = Inr 30"
  by (simp add: getJointPos_def py_index_def getDOF_def MobileManipulator_init_def)

subsection \<open>Obstacle activation\<close>



text \<open>
  C10. When the activation threshold is below the deactivation threshold, a second
  \<open>Obstacle3D.updateActivation\<close> on the same robot leaves the activation as the first
  call left it, whatever the robot state and the activation before; the robot is
  unchanged, and where the distance can be computed both calls return and each
  appends the distance to the error history.
\<close>

theorem Obstacle3D_updateActivation_idempotent:
  assumes "Obstacle3D.activation_thresh t < Obstacle3D.deactivation_thresh t"
  shows "fst (state_of (Obstacle3D_updateActivation (r, t))) = r \<and>
     activation (snd (state_of (Obstacle3D_updateActivation
        (state_of (Obstacle3D_updateActivation (r, t))))))
       = activation (snd (state_of (Obstacle3D_updateActivation (r, t)))) \<and>
     (\<forall>dist. obstacle_distance r t = Inr dist \<longrightarrow>
        returns (Obstacle3D_updateActivation (r, t)) \<and>
        returns (Obstacle3D_updateActivation (state_of (Obstacle3D_updateActivation (r, t)))) \<and>
        err_hist (snd (state_of (Obstacle3D_updateActivation (r, t)))) = err_hist t @ [dist] \<and>
        err_hist (snd (state_of (Obstacle3D_updateActivation
          (state_of (Obstacle3D_updateActivation (r, t)))))) = err_hist t @ [dist, dist])"
proof (cases "obstacle_distance r t")
  case (Inl e)
  then show ?thesis
    by (simp add: Obstacle3D_updateActivation_def attempt_def)
next
  case (Inr dist)
  have d: "\<And>t'. obstacle t' = obstacle t \<Longrightarrow> obstacle_distance r t' = Inr dist"
    using Inr by (simp add: obstacle_distance_def)
  show ?thesis
    using assms Inr
    by (auto simp: Obstacle3D_updateActivation_def attempt_def isActive_def setActivation_def
        obstacle_distance_def Let_def)
qed

text \<open>
  The theorem for C10 on the same input as above: active after both calls, the
  distance logged twice.
\<close>

theorem Obstacle3D_updateActivation_idempotent_witness:
  "activation (snd (state_of (Obstacle3D_updateActivation (state_of (Obstacle3D_updateActivation
     (MobileManipulator_init\<lparr>T := Some [[[1, 0, 0, 1], [0, 1, 0, 2], [0, 0, 1, 0], [0, 0, 0, 1]]]\<rparr>,
      Obstacle3D_init ''obstacle'' [[0], [0], [0]] [1, 1] 1 2 [0, 0, 0] [[1]])))))) \<and>
   err_hist (snd (state_of (Obstacle3D_updateActivation (state_of (Obstacle3D_updateActivation
     (MobileManipulator_init\<lparr>T := Some [[[1, 0, 0, 1], [0, 1, 0, 2], [0, 0, 1, 0], [0, 0, 0, 1]]]\<rparr>,
      Obstacle3D_init ''obstacle'' [[0], [0], [0]] [1, 1] 1 2 [0, 0, 0] [[1]])))))) = [1, 1]"
  using Obstacle3D_updateActivation_idempotent
    [of "Obstacle3D_init ''obstacle'' [[0], [0], [0]] [1, 1] 1 2 [0, 0, 0] [[1]]"
        "MobileManipulator_init\<lparr>T := Some [[[1, 0, 0, 1], [0, 1, 0, 2], [0, 0, 1, 0], [0, 0, 0, 1]]]\<rparr>"]
  by (auto simp: Obstacle3D_updateActivation_def attempt_def isActive_def setActivation_def
      obstacle_distance_def getEETransform_def planar_def
      reshape2_def vec_sub_def norm2_def and_then_def py_index_def
      MobileManipulator_init_def Obstacle3D_init_def)

subsection \<open>Joint-limit activation\<close>

lemma JointLimits_step_eq:
  assumes "i < length (q r)" "i < length (upper_limits t)" "i < length (lower_limits t)"
    "i + 2 < length (activation t)"
  shows "JointLimits_step r t i =
           Inr (t\<lparr>activation := (activation t)[i + 2 :=
                  limit_transition (activation t ! (i + 2)) (q r ! i) (lower_limits t ! i)
                    (upper_limits t ! i) (JointLimits.activation_thresh t)
                    (JointLimits.deactivation_thresh t)]\<rparr>)"
proof -
  define a where "a = activation t ! (i + 2)"
  have n: "nat (int i + 2) = i + 2" by simp
  have a: "py_index (activation t) (int i + 2) = Inr a"
    using assms(4) unfolding py_index_def n a_def by auto
  have s: "\<And>v. py_setitem (activation t) (int i + 2) v = Inr ((activation t)[i + 2 := v])"
    using assms(4) unfolding py_setitem_def n by auto
  have p: "getJointPos r (int i + 1) = Inr (q r ! i)"
    using assms by (simp add: getJointPos_def py_index_nat)
  have u: "py_index (upper_limits t) (int i) = Inr (upper_limits t ! i)"
    and l: "py_index (lower_limits t) (int i) = Inr (lower_limits t ! i)"
    using assms by (simp_all add: py_index_nat)
  have same: "\<And>v. v = a \<Longrightarrow> t\<lparr>activation := (activation t)[i + 2 := v]\<rparr> = t"
    by (simp add: a_def)
  have "JointLimits_step r t i =
           Inr (t\<lparr>activation := (activation t)[i + 2 :=
                  limit_transition a (q r ! i) (lower_limits t ! i)
                    (upper_limits t ! i) (JointLimits.activation_thresh t)
                    (JointLimits.deactivation_thresh t)]\<rparr>)"
    unfolding JointLimits_step_def a s p u l and_then_def limit_transition_def
    by (simp add: same del: One_nat_def add_2_eq_Suc add_2_eq_Suc')
  then show ?thesis by (simp only: a_def)
qed

lemma JointLimits_loop_eq:
  assumes "distinct js" "\<forall>i\<in>set js. i < length (q r) \<and> i < length (upper_limits t) \<and>
     i < length (lower_limits t) \<and> i + 2 < length (activation t)"
  shows "\<exists>A. JointLimits_loop r t js = Returns (t\<lparr>activation := A\<rparr>) \<and>
           length A = length (activation t) \<and>
           (\<forall>i\<in>set js. A ! (i + 2) =
              limit_transition (activation t ! (i + 2)) (q r ! i) (lower_limits t ! i)
                (upper_limits t ! i) (JointLimits.activation_thresh t)
                (JointLimits.deactivation_thresh t)) \<and>
           (\<forall>k. (\<forall>i\<in>set js. k \<noteq> i + 2) \<longrightarrow> A ! k = activation t ! k)"
  using assms
proof (induction js arbitrary: t)
  case Nil
  show ?case by (rule exI [of _ "activation t"]) simp
next
  case (Cons j js)
  let ?v = "limit_transition (activation t ! (j + 2)) (q r ! j) (lower_limits t ! j)
                (upper_limits t ! j) (JointLimits.activation_thresh t)
                (JointLimits.deactivation_thresh t)"
  let ?t1 = "t\<lparr>activation := (activation t)[j + 2 := ?v]\<rparr>"
  have st: "JointLimits_step r t j = Inr ?t1"
    using Cons.prems by (intro JointLimits_step_eq) auto
  have "\<exists>A. JointLimits_loop r ?t1 js = Returns (?t1\<lparr>activation := A\<rparr>) \<and>
           length A = length (activation ?t1) \<and>
           (\<forall>i\<in>set js. A ! (i + 2) =
              limit_transition (activation ?t1 ! (i + 2)) (q r ! i) (lower_limits ?t1 ! i)
                (upper_limits ?t1 ! i) (JointLimits.activation_thresh ?t1)
                (JointLimits.deactivation_thresh ?t1)) \<and>
           (\<forall>k. (\<forall>i\<in>set js. k \<noteq> i + 2) \<longrightarrow> A ! k = activation ?t1 ! k)"
    using Cons.prems by (intro Cons.IH) auto
  then obtain A where A: "JointLimits_loop r ?t1 js = Returns (?t1\<lparr>activation := A\<rparr>)"
    "length A = length (activation ?t1)"
    "\<forall>i\<in>set js. A ! (i + 2) =
              limit_transition (activation ?t1 ! (i + 2)) (q r ! i) (lower_limits ?t1 ! i)
                (upper_limits ?t1 ! i) (JointLimits.activation_thresh ?t1)
                (JointLimits.deactivation_thresh ?t1)"
    "\<forall>k. (\<forall>i\<in>set js. k \<noteq> i + 2) \<longrightarrow> A ! k = activation ?t1 ! k"
    by blast
  have jn: "\<forall>i\<in>set js. i \<noteq> j" using Cons.prems(1) by auto
  have j2: "j + 2 < length (activation t)" using Cons.prems(2) by simp
  show ?case
  proof (intro exI [of _ A] conjI)
    show "JointLimits_loop r t (j # js) = Returns (t\<lparr>activation := A\<rparr>)"
      using st A(1) by simp
    show "length A = length (activation t)" using A(2) by simp
    show "\<forall>i\<in>set (j # js). A ! (i + 2) =
              limit_transition (activation t ! (i + 2)) (q r ! i) (lower_limits t ! i)
                (upper_limits t ! i) (JointLimits.activation_thresh t)
                (JointLimits.deactivation_thresh t)"
    proof
      fix i assume i: "i \<in> set (j # js)"
      show "A ! (i + 2) =
              limit_transition (activation t ! (i + 2)) (q r ! i) (lower_limits t ! i)
                (upper_limits t ! i) (JointLimits.activation_thresh t)
                (JointLimits.deactivation_thresh t)"
      proof (cases "i = j")
        case True
        have "A ! (j + 2) = activation ?t1 ! (j + 2)"
          using A(4) [rule_format, of "j + 2"] jn by auto
        then show ?thesis using True j2 by simp
      next
        case False
        then have "i \<in> set js" using i by simp
        then show ?thesis using A(3) False by simp
      qed
    qed
    show "\<forall>k. (\<forall>i\<in>set (j # js). k \<noteq> i + 2) \<longrightarrow> A ! k = activation t ! k"
      using A(4) by simp
  qed
qed

lemma JointLimits_updateActivation_returns:
  assumes "getDOF r - 2 \<le> length (q r)"
    and "getDOF r - 2 \<le> length (upper_limits t)"
    and "getDOF r - 2 \<le> length (lower_limits t)"
    and "getDOF r \<le> length (activation t)"
  shows "\<exists>A. JointLimits_updateActivation (r, t) = Returns (r, t\<lparr>activation := A\<rparr>)"
proof -
  have "\<exists>A. JointLimits_loop r t [0..<getDOF r - 2] = Returns (t\<lparr>activation := A\<rparr>) \<and>
           length A = length (activation t) \<and>
           (\<forall>i\<in>set [0..<getDOF r - 2]. A ! (i + 2) =
              limit_transition (activation t ! (i + 2)) (q r ! i) (lower_limits t ! i)
                (upper_limits t ! i) (JointLimits.activation_thresh t)
                (JointLimits.deactivation_thresh t)) \<and>
           (\<forall>k. (\<forall>i\<in>set [0..<getDOF r - 2]. k \<noteq> i + 2) \<longrightarrow> A ! k = activation t ! k)"
    using assms by (intro JointLimits_loop_eq) auto
  then obtain A where "JointLimits_loop r t [0..<getDOF r - 2] = Returns (t\<lparr>activation := A\<rparr>)"
    by blast
  then have "JointLimits_updateActivation (r, t) = Returns (r, t\<lparr>activation := A\<rparr>)"
    by (simp add: JointLimits_updateActivation_def)
  then show ?thesis by blast
qed




subsection \<open>Joint-limit update\<close>

lemma JointLimits_isActive_iff: "(JointLimits_isActive t = 1) = (\<exists>a\<in>set (activation t). a \<noteq> 0)"
  by (auto simp: JointLimits_isActive_def list_all_iff)

text \<open>
  C8, as the code has it. On a robot and a task whose arrays are long enough,
  \<open>JointLimits.update\<close> returns and leaves the robot alone; the task's Jacobian is then
  the identity of size \<open>DOF\<close>, a unit row for every joint whatever its activation; its
  error is the configured gain; and \<open>isActive\<close> is \<open>1\<close> exactly when some activation entry
  is not zero, \<open>0\<close> exactly when all are zero.
\<close>

theorem JointLimits_update_identity:
  assumes "getDOF r - 2 \<le> length (q r)"
    and "getDOF r - 2 \<le> length (upper_limits t)"
    and "getDOF r - 2 \<le> length (lower_limits t)"
    and "getDOF r \<le> length (activation t)"
  shows "\<exists>t'. JointLimits_update (r, t) = Returns (r, t') \<and>
     length (J t') = getDOF r \<and>
     (\<forall>i < getDOF r. length (J t' ! i) = getDOF r \<and>
        (\<forall>j < getDOF r. J t' ! i ! j = (if i = j then 1 else 0))) \<and>
     err t' = getGain t \<and>
     ((JointLimits_isActive t' = 1) = (\<exists>a\<in>set (activation t'). a \<noteq> 0)) \<and>
     ((JointLimits_isActive t' = 0) = (\<forall>a\<in>set (activation t'). a = 0))"
proof -
  obtain A where A: "JointLimits_updateActivation (r, t) = Returns (r, t\<lparr>activation := A\<rparr>)"
    using JointLimits_updateActivation_returns [OF assms] by blast
  let ?t' = "t\<lparr>activation := A, J := eye (getDOF r), err := getGain t\<rparr>"
  have "JointLimits_update (r, t) = Returns (r, ?t')"
    by (simp add: JointLimits_update_def A getGain_def)
  moreover have "length (J ?t') = getDOF r" by (simp add: eye_def)
  moreover have "\<forall>i < getDOF r. length (J ?t' ! i) = getDOF r \<and>
        (\<forall>j < getDOF r. J ?t' ! i ! j = (if i = j then 1 else 0))"
    by (simp add: eye_def)
  moreover have "err ?t' = getGain t" by simp
  moreover have "(JointLimits_isActive ?t' = 1) = (\<exists>a\<in>set (activation ?t'). a \<noteq> 0)"
    by (rule JointLimits_isActive_iff)
  moreover have "(JointLimits_isActive ?t' = 0) = (\<forall>a\<in>set (activation ?t'). a = 0)"
    by (auto simp: JointLimits_isActive_def list_all_iff)
  ultimately show ?thesis by blast
qed

text \<open>
  The theorem for C8 at the robot with joint 2 at \<open>-0.5\<close> and the limits of config.py:
  the Jacobian has \<open>1\<close> on its diagonal.
\<close>

theorem JointLimits_update_identity_witness:
  "J (snd (state_of (JointLimits_update
      (MobileManipulator_init\<lparr>q := [0, - 1 / 2, 0, 0]\<rparr>,
       JointLimits_init ''limits'' [[0], [0], [0], [0]]
         [- 1571 / 1000, - 1571 / 1000, - 1571 / 1000, - 1571 / 1000]
         [1571 / 1000, 5 / 100, 5 / 100, 1571 / 1000] (5 / 100) (8 / 100) [0, 0, 0, 0] [[1]])))) ! 1 ! 1 = 1"
  using JointLimits_update_identity [of "MobileManipulator_init\<lparr>q := [0, - 1 / 2, 0, 0]\<rparr>"
      "JointLimits_init ''limits'' [[0], [0], [0], [0]]
         [- 1571 / 1000, - 1571 / 1000, - 1571 / 1000, - 1571 / 1000]
         [1571 / 1000, 5 / 100, 5 / 100, 1571 / 1000] (5 / 100) (8 / 100) [0, 0, 0, 0] [[1]]"]
  by (auto simp: MobileManipulator_init_def JointLimits_init_def getDOF_def)

text \<open>
  C8 as stated fails: on that input no joint is near a limit, every activation entry
  is \<open>0\<close> after the update, and the Jacobian still holds a unit row for each of the four
  joints.
\<close>

theorem JointLimits_update_counterexample:
  "JointLimits_update
      (MobileManipulator_init\<lparr>q := [0, - 1 / 2, 0, 0]\<rparr>,
       JointLimits_init ''limits'' [[0], [0], [0], [0]]
         [- 1571 / 1000, - 1571 / 1000, - 1571 / 1000, - 1571 / 1000]
         [1571 / 1000, 5 / 100, 5 / 100, 1571 / 1000] (5 / 100) (8 / 100) [0, 0, 0, 0] [[1]])
    = Returns (MobileManipulator_init\<lparr>q := [0, - 1 / 2, 0, 0]\<rparr>,
       (JointLimits_init ''limits'' [[0], [0], [0], [0]]
         [- 1571 / 1000, - 1571 / 1000, - 1571 / 1000, - 1571 / 1000]
         [1571 / 1000, 5 / 100, 5 / 100, 1571 / 1000] (5 / 100) (8 / 100) [0, 0, 0, 0] [[1]])
         \<lparr>activation := [0, 0, 0, 0, 0, 0],
          J := [[1, 0, 0, 0], [0, 1, 0, 0], [0, 0, 1, 0], [0, 0, 0, 1]],
          err := [[1]]\<rparr>)"
  by (simp add: JointLimits_update_def JointLimits_updateActivation_def JointLimits_step_def
      getDOF_def getJointPos_def getGain_def eye_def
      py_index_def py_setitem_def and_then_def MobileManipulator_init_def JointLimits_init_def
      upt_rec)

subsection \<open>Simultaneous integration of the base pose\<close>

lemma move_and_rotate_simultaneously_divides:
  assumes "2 \<le> length dQ" "3 \<le> length (eta r)" "dQ ! 0 = 0"
  shows "move_and_rotate_simultaneously r dQ dt = Inr [None, None, None]"
  using assms
  by (simp add: move_and_rotate_simultaneously_def np_divide_def fl_dot_def)

text \<open>
  C4 at a failing input: angular velocity \<open>0\<close>, forward velocity \<open>1\<close>, time step \<open>0.1\<close>,
  pose zero. \<open>move_and_rotate_simultaneously\<close> divides by the angular velocity and the
  pose it assigns has no finite entry, where \<open>move_then_rotate\<close> on the same command
  moves the base \<open>0.1\<close> straight ahead.
\<close>

theorem move_and_rotate_simultaneously_zero_angular:
  "move_and_rotate_simultaneously MobileManipulator_init [0, 1, 0, 0, 0, 0] (1 / 10)
     = Inr [None, None, None] \<and>
   move_then_rotate (MobileManipulator_init\<lparr>eta := [0, 0, 0]\<rparr>) [0, 1, 0, 0, 0, 0] (1 / 10)
     = Inr (MobileManipulator_init\<lparr>eta := [1 / 10, 0, 0]\<rparr>)"
  by (simp add: move_and_rotate_simultaneously_def move_then_rotate_def np_divide_def fl_dot_def
      MobileManipulator_init_def)

subsection \<open>The end-effector Jacobian\<close>

lemma getEEJacobian_explicit:
  assumes "length (q r) = 4" "3 < length (eta r)" "ManipulatorParams.dof (manipulatorParams r) = 4"
  shows "getEEJacobian r =
     (let p = manipulatorParams r;
          q1 = q r ! 0; q2 = q r ! 1; q3 = q r ! 2;
          yaw = eta r ! 3;
          l = bx p + - d1 p * sin q2 + d2 p * cos q3 + mx p
      in Inr [[- l * sin q1 * cos yaw - l * cos q1 * sin yaw,
               - d1 p * cos q2 * (cos q1 * cos yaw - sin q1 * sin yaw),
               - d2 p * sin q3 * (cos q1 * cos yaw - sin q1 * sin yaw), 0],
              [- l * sin q1 * sin yaw + l * cos q1 * cos yaw,
               - d1 p * cos q2 * (cos q1 * sin yaw + sin q1 * cos yaw),
               - d2 p * sin q3 * (cos q1 * cos yaw - sin q1 * sin yaw), 0],
              [0, d1 p * sin q2, - d2 p * cos q3, 0],
              [0, 0, 0, 0],
              [0, 0, 0, 0],
              [1, 0, 0, 1]])"
  using assms
  by (simp add: getEEJacobian_def set_col_def zeros_def and_then_def numeral_eq_Suc Let_def)

text \<open>
  C5, as the code has it. For every configuration of four joint positions and at least
  four pose entries (and the arm's four degrees of freedom), \<open>getEEJacobian\<close> returns a
  matrix of six rows and four columns, one column per joint rate \<open>q1 .. q4\<close> and none
  for the base; rows 0 to 2 are the linear rows (the height does not depend on
  \<open>q1\<close>, and nothing linear on \<open>q4\<close>), rows 3 to 5 the angular rows: zero but for the
  heading row, which has \<open>1\<close> for \<open>q1\<close> and for \<open>q4\<close>.
\<close>

theorem getEEJacobian_shape:
  assumes "length (q r) = 4" "3 < length (eta r)" "ManipulatorParams.dof (manipulatorParams r) = 4"
  shows "\<exists>Jee. getEEJacobian r = Inr Jee \<and> length Jee = 6 \<and>
           list_all (\<lambda>row. length row = 4) Jee \<and>
           Jee ! 2 ! 0 = 0 \<and>
           map (\<lambda>row. row ! 3) (take 3 Jee) = [0, 0, 0] \<and>
           drop 3 Jee = [[0, 0, 0, 0], [0, 0, 0, 0], [1, 0, 0, 1]]"
  using getEEJacobian_explicit [OF assms] by (simp add: Let_def)

text \<open>
  The theorem for C5 at the robot as constructed.
\<close>

theorem getEEJacobian_shape_witness:
  "length (projr (getEEJacobian MobileManipulator_init)) = 6 \<and>
   list_all (\<lambda>row. length row = 4) (projr (getEEJacobian MobileManipulator_init)) \<and>
   drop 3 (projr (getEEJacobian MobileManipulator_init))
     = [[0, 0, 0, 0], [0, 0, 0, 0], [1, 0, 0, 1]]"
proof -
  have "length (q MobileManipulator_init) = 4" "3 < length (eta MobileManipulator_init)"
    "ManipulatorParams.dof (manipulatorParams MobileManipulator_init) = 4"
    by (simp_all add: MobileManipulator_init_def ManipulatorParams_init_def)
  from getEEJacobian_shape [OF this] show ?thesis by auto
qed

text \<open>
  C5 as stated fails: at the robot as constructed the Jacobian has four columns, not
  the six of the command space (base angular, base forward, four joint rates).
\<close>

theorem getEEJacobian_counterexample:
  "getEEJacobian MobileManipulator_init =
     Inr [[0, - (142 / 1000), 0, 0],
          [2285 / 10000, 0, 0, 0],
          [0, 0, - (1588 / 10000), 0],
          [0, 0, 0, 0],
          [0, 0, 0, 0],
          [1, 0, 0, 1]]"
  by (simp add: getEEJacobian_def MobileManipulator_init_def ManipulatorParams_init_def
      set_col_def zeros_def and_then_def numeral_eq_Suc)

lemma getEEposition_explicit:
  assumes "3 < length (eta r)"
  shows "projr (getEEposition (r\<lparr>q := [a, b, c, d]\<rparr>)) =
     [[(bx (manipulatorParams r) + - d1 (manipulatorParams r) * sin b
          + d2 (manipulatorParams r) * cos c + mx (manipulatorParams r)) * cos a + eta r ! 0],
      [(bx (manipulatorParams r) + - d1 (manipulatorParams r) * sin b
          + d2 (manipulatorParams r) * cos c + mx (manipulatorParams r)) * sin a + eta r ! 1],
      [- (bz (manipulatorParams r) + d1 (manipulatorParams r) * cos (- b)
          + d2 (manipulatorParams r) * sin c - mz (manipulatorParams r)) + eta r ! 2]]"
  using assms by (simp add: getEEposition_def Let_def)

text \<open>
  With the base heading \<open>eta[3]\<close> at zero, as \<open>update\<close> leaves it, every entry of the
  three position rows is the partial derivative of \<open>getEEposition\<close> but one: the
  derivative of \<open>y\<close> by \<open>q3\<close> is \<open>-d2 sin q3 sin q1\<close>, and the Jacobian has
  \<open>-d2 sin q3 cos q1\<close> there, the entry of \<open>x\<close>.
\<close>

lemma getEEJacobian_position_entries:
  assumes qr: "q r = [a, b, c, d]" and e: "3 < length (eta r)" and yaw: "eta r ! 3 = 0"
    and p: "ManipulatorParams.dof (manipulatorParams r) = 4"
  shows "((\<lambda>x. projr (getEEposition (r\<lparr>q := [x, b, c, d]\<rparr>)) ! 0 ! 0)
            has_real_derivative projr (getEEJacobian r) ! 0 ! 0) (at a)"
    and "((\<lambda>x. projr (getEEposition (r\<lparr>q := [x, b, c, d]\<rparr>)) ! 1 ! 0)
            has_real_derivative projr (getEEJacobian r) ! 1 ! 0) (at a)"
    and "((\<lambda>x. projr (getEEposition (r\<lparr>q := [x, b, c, d]\<rparr>)) ! 2 ! 0)
            has_real_derivative projr (getEEJacobian r) ! 2 ! 0) (at a)"
    and "((\<lambda>x. projr (getEEposition (r\<lparr>q := [a, x, c, d]\<rparr>)) ! 0 ! 0)
            has_real_derivative projr (getEEJacobian r) ! 0 ! 1) (at b)"
    and "((\<lambda>x. projr (getEEposition (r\<lparr>q := [a, x, c, d]\<rparr>)) ! 1 ! 0)
            has_real_derivative projr (getEEJacobian r) ! 1 ! 1) (at b)"
    and "((\<lambda>x. projr (getEEposition (r\<lparr>q := [a, x, c, d]\<rparr>)) ! 2 ! 0)
            has_real_derivative projr (getEEJacobian r) ! 2 ! 1) (at b)"
    and "((\<lambda>x. projr (getEEposition (r\<lparr>q := [a, b, x, d]\<rparr>)) ! 0 ! 0)
            has_real_derivative projr (getEEJacobian r) ! 0 ! 2) (at c)"
    and "((\<lambda>x. projr (getEEposition (r\<lparr>q := [a, b, x, d]\<rparr>)) ! 1 ! 0)
            has_real_derivative - d2 (manipulatorParams r) * sin c * sin a) (at c)"
    and "((\<lambda>x. projr (getEEposition (r\<lparr>q := [a, b, x, d]\<rparr>)) ! 2 ! 0)
            has_real_derivative projr (getEEJacobian r) ! 2 ! 2) (at c)"
    and "((\<lambda>x. projr (getEEposition (r\<lparr>q := [a, b, c, x]\<rparr>)) ! 0 ! 0)
            has_real_derivative projr (getEEJacobian r) ! 0 ! 3) (at d)"
    and "((\<lambda>x. projr (getEEposition (r\<lparr>q := [a, b, c, x]\<rparr>)) ! 1 ! 0)
            has_real_derivative projr (getEEJacobian r) ! 1 ! 3) (at d)"
    and "((\<lambda>x. projr (getEEposition (r\<lparr>q := [a, b, c, x]\<rparr>)) ! 2 ! 0)
            has_real_derivative projr (getEEJacobian r) ! 2 ! 3) (at d)"
    and "projr (getEEJacobian r) ! 1 ! 2 = - d2 (manipulatorParams r) * sin c * cos a"
proof -
  have len: "length (q r) = 4" using qr by simp
  note J = getEEJacobian_explicit [OF len e p]
  note P = getEEposition_explicit [OF e]
  show "((\<lambda>x. projr (getEEposition (r\<lparr>q := [x, b, c, d]\<rparr>)) ! 0 ! 0)
            has_real_derivative projr (getEEJacobian r) ! 0 ! 0) (at a)"
    unfolding P J by (simp add: Let_def qr yaw) (auto intro!: derivative_eq_intros)
  show "((\<lambda>x. projr (getEEposition (r\<lparr>q := [x, b, c, d]\<rparr>)) ! 1 ! 0)
            has_real_derivative projr (getEEJacobian r) ! 1 ! 0) (at a)"
    unfolding P J by (simp add: Let_def qr yaw) (auto intro!: derivative_eq_intros)
  show "((\<lambda>x. projr (getEEposition (r\<lparr>q := [x, b, c, d]\<rparr>)) ! 2 ! 0)
            has_real_derivative projr (getEEJacobian r) ! 2 ! 0) (at a)"
    unfolding P J by (simp add: Let_def qr yaw)
  show "((\<lambda>x. projr (getEEposition (r\<lparr>q := [a, x, c, d]\<rparr>)) ! 0 ! 0)
            has_real_derivative projr (getEEJacobian r) ! 0 ! 1) (at b)"
    unfolding P J by (simp add: Let_def qr yaw) (auto intro!: derivative_eq_intros)
  show "((\<lambda>x. projr (getEEposition (r\<lparr>q := [a, x, c, d]\<rparr>)) ! 1 ! 0)
            has_real_derivative projr (getEEJacobian r) ! 1 ! 1) (at b)"
    unfolding P J by (simp add: Let_def qr yaw) (auto intro!: derivative_eq_intros)
  show "((\<lambda>x. projr (getEEposition (r\<lparr>q := [a, x, c, d]\<rparr>)) ! 2 ! 0)
            has_real_derivative projr (getEEJacobian r) ! 2 ! 1) (at b)"
    unfolding P J by (simp add: Let_def qr yaw) (auto intro!: derivative_eq_intros)
  show "((\<lambda>x. projr (getEEposition (r\<lparr>q := [a, b, x, d]\<rparr>)) ! 0 ! 0)
            has_real_derivative projr (getEEJacobian r) ! 0 ! 2) (at c)"
    unfolding P J by (simp add: Let_def qr yaw) (auto intro!: derivative_eq_intros)
  show "((\<lambda>x. projr (getEEposition (r\<lparr>q := [a, b, x, d]\<rparr>)) ! 1 ! 0)
            has_real_derivative - d2 (manipulatorParams r) * sin c * sin a) (at c)"
    unfolding P by simp (auto intro!: derivative_eq_intros)
  show "((\<lambda>x. projr (getEEposition (r\<lparr>q := [a, b, x, d]\<rparr>)) ! 2 ! 0)
            has_real_derivative projr (getEEJacobian r) ! 2 ! 2) (at c)"
    unfolding P J by (simp add: Let_def qr yaw) (auto intro!: derivative_eq_intros)
  show "((\<lambda>x. projr (getEEposition (r\<lparr>q := [a, b, c, x]\<rparr>)) ! 0 ! 0)
            has_real_derivative projr (getEEJacobian r) ! 0 ! 3) (at d)"
    unfolding P J by (simp add: Let_def qr yaw)
  show "((\<lambda>x. projr (getEEposition (r\<lparr>q := [a, b, c, x]\<rparr>)) ! 1 ! 0)
            has_real_derivative projr (getEEJacobian r) ! 1 ! 3) (at d)"
    unfolding P J by (simp add: Let_def qr yaw)
  show "((\<lambda>x. projr (getEEposition (r\<lparr>q := [a, b, c, x]\<rparr>)) ! 2 ! 0)
            has_real_derivative projr (getEEJacobian r) ! 2 ! 3) (at d)"
    unfolding P J by (simp add: Let_def qr yaw)
  show "projr (getEEJacobian r) ! 1 ! 2 = - d2 (manipulatorParams r) * sin c * cos a"
    unfolding J by (simp add: Let_def qr yaw)
qed

text \<open>
  C6 at a failing input: joints \<open>(0, 0, pi/2, 0)\<close>, pose zero. The Jacobian's entry for
  \<open>y\<close> and \<open>q3\<close> is \<open>-0.1588\<close>, while \<open>y\<close> does not change with \<open>q3\<close> there: its partial
  derivative is \<open>0\<close>.
\<close>

theorem getEEJacobian_dy_dq3:
  "projr (getEEJacobian (MobileManipulator_init\<lparr>q := [0, 0, pi / 2, 0]\<rparr>)) ! 1 ! 2
     = - (1588 / 10000) \<and>
   ((\<lambda>q3. projr (getEEposition (MobileManipulator_init\<lparr>q := [0, 0, q3, 0]\<rparr>)) ! 1 ! 0)
      has_real_derivative 0) (at (pi / 2))"
proof
  show "projr (getEEJacobian (MobileManipulator_init\<lparr>q := [0, 0, pi / 2, 0]\<rparr>)) ! 1 ! 2
     = - (1588 / 10000)"
    by (simp add: getEEJacobian_def MobileManipulator_init_def ManipulatorParams_init_def
      set_col_def zeros_def and_then_def numeral_eq_Suc Let_def)
  have "(\<lambda>q3. projr (getEEposition (MobileManipulator_init\<lparr>q := [0, 0, q3, 0]\<rparr>)) ! 1 ! 0)
      = (\<lambda>q3. 0)"
    by (simp add: getEEposition_def MobileManipulator_init_def fun_eq_iff)
  then show "((\<lambda>q3. projr (getEEposition (MobileManipulator_init\<lparr>q := [0, 0, q3, 0]\<rparr>)) ! 1 ! 0)
      has_real_derivative 0) (at (pi / 2))"
    by simp
qed

subsection \<open>Obstacle update\<close>

lemma Obstacle3D_update_at_obstacle:
  assumes "getEETransform r = Inr M" "planar M = Inr ee" "obstacle t = ee"
  shows "err (snd (state_of (Obstacle3D_update (r, t)))) = [[None], [None], [Some 0]]"
proof -
  have len: "length ee = 2"
    using assms(2) by (auto simp: planar_def split: if_splits)
  then obtain x y where ee: "ee = [x, y]"
    by (cases ee; cases "tl ee") auto
  have d: "obstacle_distance r t = Inr 0"
    using assms ee by (simp add: obstacle_distance_def reshape2_def and_then_def vec_sub_def norm2_def)
  show ?thesis
    using assms ee d
    by (cases "and_then (getEEJacobian r) (\<lambda>Jee. reshape (concat (take 3 Jee)) 3 (getDOF r))")
      (simp_all add: Obstacle3D_update_def attempt_def and_then_def reshape2_def vec_sub_def
        np_divide_def Let_def)
qed

text \<open>
  C3 at a failing input: the end effector at \<open>(1, 2)\<close> and the obstacle at the same
  point. The distance is \<open>0\<close>; \<open>Obstacle3D.update\<close> returns, no condition raised, and the
  two planar entries of the error are quotients by zero, not finite values.
\<close>

theorem Obstacle3D_update_zero_distance:
  "obstacle_distance
     (MobileManipulator_init\<lparr>T := Some [[[1, 0, 0, 1], [0, 1, 0, 2], [0, 0, 1, 0], [0, 0, 0, 1]]]\<rparr>)
     (Obstacle3D_init ''obstacle'' [[0], [0], [0]] [1, 2] (5 / 100) (8 / 100) [0, 0, 0] [[1]])
     = Inr 0 \<and>
   returns (Obstacle3D_update
     (MobileManipulator_init\<lparr>T := Some [[[1, 0, 0, 1], [0, 1, 0, 2], [0, 0, 1, 0], [0, 0, 0, 1]]]\<rparr>,
      Obstacle3D_init ''obstacle'' [[0], [0], [0]] [1, 2] (5 / 100) (8 / 100) [0, 0, 0] [[1]])) \<and>
   err (snd (state_of (Obstacle3D_update
     (MobileManipulator_init\<lparr>T := Some [[[1, 0, 0, 1], [0, 1, 0, 2], [0, 0, 1, 0], [0, 0, 0, 1]]]\<rparr>,
      Obstacle3D_init ''obstacle'' [[0], [0], [0]] [1, 2] (5 / 100) (8 / 100) [0, 0, 0] [[1]]))))
     = [[None], [None], [Some 0]]"
  by (simp add: Obstacle3D_update_def obstacle_distance_def getEETransform_def planar_def
      reshape2_def vec_sub_def norm2_def np_divide_def attempt_def and_then_def py_index_def
      getEEJacobian_def set_col_def zeros_def reshape_def getDOF_def
      MobileManipulator_init_def ManipulatorParams_init_def Obstacle3D_init_def
      numeral_eq_Suc upt_rec)

subsection \<open>Tasks do not change the robot\<close>

lemma attempt_state:
  assumes "\<And>x. fst (state_of (k x)) = fst s"
  shows "fst (state_of (attempt m s k)) = fst s"
  using assms by (cases m) (simp_all add: attempt_def)

text \<open>
  C9. For each task variant (end-effector position, orientation and pose, base
  heading and position, joint limits, obstacle), after \<open>update\<close> and after
  \<open>updateActivation\<close> the robot is the robot of before, joint positions \<open>q\<close> and pose
  \<open>eta\<close> included, whether the call returns or raises; only the task is changed.
\<close>

theorem task_methods_leave_robot:
  "fst (state_of (EEPosition3D_update (r, t1))) = r \<and>
   fst (state_of (EEOrientation3D_update getEEorientation (r, t2))) = r \<and>
   fst (state_of (EEConfiguration3D_update getEEorientation (r, t3))) = r \<and>
   fst (state_of (MMOrientation_update getMMJacobian getMMorientation (r, t4))) = r \<and>
   fst (state_of (MMposition_update getMMJacobian getMMposition (r, t5))) = r \<and>
   fst (state_of (JointLimits_update (r, t6))) = r \<and>
   fst (state_of (Obstacle3D_update (r, t7))) = r \<and>
   fst (state_of (Task_update (r, t1))) = r \<and>
   fst (state_of (Task_updateActivation (r, t1))) = r \<and>
   fst (state_of (Task_updateActivation (r, t3))) = r \<and>
   fst (state_of (JointLimits_updateActivation (r, t6))) = r \<and>
   fst (state_of (Obstacle3D_updateActivation (r, t7))) = r"
proof -
  have a: "fst (state_of (EEPosition3D_update (r, t1))) = r"
    by (simp add: EEPosition3D_update_def attempt_state Let_def)
  have b: "fst (state_of (EEOrientation3D_update getEEorientation (r, t2))) = r"
    by (simp add: EEOrientation3D_update_def attempt_state Let_def)
  have c: "fst (state_of (EEConfiguration3D_update getEEorientation (r, t3))) = r"
    by (simp add: EEConfiguration3D_update_def attempt_state Let_def)
  have d: "fst (state_of (MMOrientation_update getMMJacobian getMMorientation (r, t4))) = r"
    by (simp add: MMOrientation_update_def attempt_state Let_def)
  have e: "fst (state_of (MMposition_update getMMJacobian getMMposition (r, t5))) = r"
    by (simp add: MMposition_update_def attempt_state Let_def)
  have g: "fst (state_of (JointLimits_updateActivation (r, t6))) = r"
    by (simp add: JointLimits_updateActivation_def split: outcome.splits)
  have f: "fst (state_of (JointLimits_update (r, t6))) = r"
    using g by (auto simp: JointLimits_update_def split: outcome.splits)
  have h: "fst (state_of (Obstacle3D_update (r, t7))) = r"
    by (simp add: Obstacle3D_update_def attempt_state Let_def)
  have i: "fst (state_of (Obstacle3D_updateActivation (r, t7))) = r"
    by (simp add: Obstacle3D_updateActivation_def attempt_state Let_def)
  have j: "fst (state_of (Task_update (r, t1))) = r"
    "fst (state_of (Task_updateActivation (r, t1))) = r"
    "fst (state_of (Task_updateActivation (r, t3))) = r"
    by (simp_all add: Task_update_def Task_updateActivation_def)
  from a b c d e f g h i j show ?thesis by simp
qed

end
